theory Spec2Isabelle
  imports Main "HOL-Library.Sublist"
begin

section \<open>Python strings\<close>

text \<open>
  A Python \<open>str\<close> is modelled as a \<open>string\<close>, one \<open>char\<close> per code point. The model covers
  ASCII text: the case mapping and the whitespace class below are those of Python on the
  code points 0 to 127, and a \<open>char\<close> above 127 is left unchanged by \<open>upper\<close> and is not
  whitespace. (Python's Unicode case mapping of a non-ASCII character may yield another
  character or several of them; such input is outside this development.)
\<close>

definition ascii_lowercase :: string where
  "ascii_lowercase = ''abcdefghijklmnopqrstuvwxyz''"

definition ascii_uppercase :: string where
  "ascii_uppercase = ''ABCDEFGHIJKLMNOPQRSTUVWXYZ''"

text \<open>\<open>str.upper\<close> on one character: a lowercase ASCII letter becomes its capital.\<close>

definition upper_char :: "char \<Rightarrow> char" where
  "upper_char c =
     (case map_of (zip ascii_lowercase ascii_uppercase) c of
        Some u \<Rightarrow> u
      | None \<Rightarrow> c)"

definition upper :: "string \<Rightarrow> string" where
  "upper s = map upper_char s"

text \<open>
  The characters \<open>str.split()\<close> and \<open>str.strip()\<close> treat as whitespace: tab, line feed,
  vertical tab, form feed, carriage return, the four separators 0x1C to 0x1F, and space.
\<close>

definition whitespace :: string where
  "whitespace = [CHR 0x09, CHR 0x0A, CHR 0x0B, CHR 0x0C, CHR 0x0D,
                 CHR 0x1C, CHR 0x1D, CHR 0x1E, CHR 0x1F, CHR 0x20]"

definition isspace :: "char \<Rightarrow> bool" where
  "isspace c = (c \<in> set whitespace)"

text \<open>\<open>s.strip()\<close>: leading and trailing whitespace removed.\<close>

definition strip :: "string \<Rightarrow> string" where
  "strip s = rev (dropWhile isspace (rev (dropWhile isspace s)))"

text \<open>
  \<open>s.split()\<close>: the maximal runs of non-whitespace characters, in order. The scan keeps the
  word read so far in \<open>cur\<close> and closes it at a whitespace character or at the end.
\<close>

fun split_scan :: "string \<Rightarrow> string \<Rightarrow> string list" where
  "split_scan cur [] = (if cur = [] then [] else [cur])"
| "split_scan cur (c # cs) =
     (if isspace c then (if cur = [] then split_scan [] cs else cur # split_scan [] cs)
      else split_scan (cur @ [c]) cs)"

definition split :: "string \<Rightarrow> string list" where
  "split s = split_scan [] s"

text \<open>\<open>sub in s\<close> on strings: \<open>sub\<close> occurs in \<open>s\<close> as a contiguous block.\<close>

fun str_in :: "string \<Rightarrow> string \<Rightarrow> bool" where
  "str_in sub [] = (sub = [])"
| "str_in sub (c # cs) = (prefix sub (c # cs) \<or> str_in sub cs)"

text \<open>\<open>s.replace(" ", "")\<close>: every space character removed.\<close>

definition remove_spaces :: "string \<Rightarrow> string" where
  "remove_spaces s = filter (\<lambda>c. c \<noteq> CHR 0x20) s"

text \<open>\<open>s[-3:]\<close>: the last three characters, the whole string when it is shorter.\<close>

definition last3 :: "string \<Rightarrow> string" where
  "last3 s = drop (length s - 3) s"

section \<open>Errors and the user interface\<close>

text \<open>The only exception the pipeline could raise: indexing a string out of range.\<close>

datatype error = IndexError

text \<open>\<open>w[0]\<close> on a string.\<close>

definition first_char :: "string \<Rightarrow> error + string" where
  "first_char w = (case w of [] \<Rightarrow> Inl IndexError | c # cs \<Rightarrow> Inr [c])"

text \<open>
  What the agents do besides returning a value: \<open>st.info\<close> shows a message and
  \<open>time.sleep\<close> waits. The state records the messages shown, oldest first, and the seconds
  of delay requested.
\<close>

record ui =
  infos :: "string list"
  slept :: nat

definition st_info :: "string \<Rightarrow> ui \<Rightarrow> ui" where
  "st_info msg u = u\<lparr>infos := infos u @ [msg]\<rparr>"

definition time_sleep :: "nat \<Rightarrow> ui \<Rightarrow> ui" where
  "time_sleep secs u = u\<lparr>slept := slept u + secs\<rparr>"

section \<open>The directory\<close>

text \<open>
  A \<open>dict\<close> with string keys is an association list in insertion order, which is the order
  \<open>.items()\<close> iterates in.
\<close>

definition UNLOCODE_DB :: "(string \<times> (string \<times> string) list) list" where
  "UNLOCODE_DB =
     [(''France'', [(''MARSEILLE'', ''FRMRS''), (''MARSEILLE-EN-BEAUVAISIS'', ''FRMBE'')]),
      (''United States'', [(''NEW YORK'', ''USNYC''), (''LOS ANGELES'', ''USLAX'')]),
      (''Germany'', [(''BERLIN'', ''DEBER'')]),
      (''China'', [(''BEIJING'', ''CNBJS''), (''SHANGHAI'', ''CNSHA'')])]"

text \<open>\<open>d.get(k, dflt)\<close>.\<close>

definition dict_get :: "('k \<times> 'v) list \<Rightarrow> 'k \<Rightarrow> 'v \<Rightarrow> 'v" where
  "dict_get d k dflt = (case map_of d k of Some v \<Rightarrow> v | None \<Rightarrow> dflt)"

section \<open>The agents\<close>

text \<open>
  The \<open>for key, code in country_data.items()\<close> loop of \<open>simulate_research_agent\<close>, with the
  \<open>return "UNK00"\<close> that follows it.
\<close>

fun research_loop :: "(string \<times> string) list \<Rightarrow> string \<Rightarrow> string" where
  "research_loop [] city_upper = ''UNK00''"
| "research_loop ((key, code) # items) city_upper =
     (if upper key = city_upper \<or> str_in city_upper (upper key) then code
      else research_loop items city_upper)"

definition simulate_research_agent :: "string \<Rightarrow> string \<Rightarrow> ui \<Rightarrow> string \<times> ui" where
  "simulate_research_agent country city u0 =
     (let u1 = st_info ''ResearchAgent: Looking up UNLOCODE data...'' u0;
          u2 = time_sleep 2 u1;
          country_data = dict_get UNLOCODE_DB country [];
          city_upper = strip (upper city)
      in (research_loop country_data city_upper, u2))"

definition generate_company_abbreviation :: "string \<Rightarrow> error + string" where
  "generate_company_abbreviation company_name =
     (let words = split company_name in
      if length words \<ge> 3 then
        (case first_char (words ! 2) of
           Inl e \<Rightarrow> Inl e
         | Inr c \<Rightarrow> Inr (upper (take 3 (words ! 0)) @ upper (take 3 (words ! 1)) @ upper c))
      else if length words = 2 then
        Inr (upper (take 3 (words ! 0)) @ upper (take 3 (words ! 1)))
      else
        Inr (upper (take 6 (remove_spaces company_name))))"

definition simulate_lookup_agent ::
  "string \<Rightarrow> string \<Rightarrow> ui \<Rightarrow> (error + string \<times> string \<times> string) \<times> ui" where
  "simulate_lookup_agent unlocode company_name u0 =
     (let u1 = st_info ''LookupAgent: Processing data to generate Organization Code...'' u0;
          u2 = time_sleep 1 u1
      in case generate_company_abbreviation company_name of
           Inl e \<Rightarrow> (Inl e, u2)
         | Inr company_abbr \<Rightarrow>
             (let location_code = (if length unlocode \<ge> 5 then last3 unlocode else ''UNK'');
                  org_code = company_abbr @ location_code
              in (Inr (org_code, company_abbr, location_code), u2)))"

definition simulate_critic_agent :: "string \<Rightarrow> ui \<Rightarrow> string \<times> ui" where
  "simulate_critic_agent org_code u0 =
     (let u1 = st_info ''CriticAgent: Validating the Organization Code...'' u0;
          u2 = time_sleep 1 u1
      in (''Validated: The Organization Code '' @ [CHR 0x27] @ org_code @ [CHR 0x27]
            @ '' is correctly generated based on the UNLOCODE data.'', u2))"

text \<open>The aggregated \<open>final_output\<close> is a \<open>dict\<close> from field names to strings.\<close>

definition lead_agent_orchestrate ::
  "string \<Rightarrow> string \<Rightarrow> string \<Rightarrow> ui \<Rightarrow> (error + (string \<times> string) list) \<times> ui" where
  "lead_agent_orchestrate country city company_name u0 =
     (case simulate_research_agent country city u0 of
        (unlocode, u1) \<Rightarrow>
          (case simulate_lookup_agent unlocode company_name u1 of
             (Inl e, u2) \<Rightarrow> (Inl e, u2)
           | (Inr (org_code, company_abbr, location_code), u2) \<Rightarrow>
               (case simulate_critic_agent org_code u2 of
                  (critique, u3) \<Rightarrow>
                    (Inr [(''country'', country),
                          (''city'', upper city),
                          (''company_name'', company_name),
                          (''unlocode'', unlocode),
                          (''company_abbr'', company_abbr),
                          (''location_code'', location_code),
                          (''org_code'', org_code),
                          (''critique'', critique)], u3))))"

section \<open>Auxiliary facts\<close>

subsection \<open>Words and the abbreviation\<close>

text \<open>
  Uppercasing keeps the length, and every word of \<open>split\<close> is non-empty, so the
  first character of the third word exists whenever there is a third word.
\<close>

lemma length_upper: "length (upper s) = length s"
  by (simp add: upper_def)

lemma upper_append: "upper (s @ t) = upper s @ upper t"
  by (simp add: upper_def)

lemma split_scan_nonempty: "w \<in> set (split_scan cur s) \<Longrightarrow> w \<noteq> []"
  by (induction s arbitrary: cur) (auto split: if_splits)

lemma split_nonempty: "w \<in> set (split s) \<Longrightarrow> w \<noteq> []"
  unfolding split_def by (rule split_scan_nonempty)

lemma split_nth_nonempty: "i < length (split s) \<Longrightarrow> split s ! i \<noteq> []"
  by (rule split_nonempty [of _ s]) simp

lemma first_char_nonempty: "w \<noteq> [] \<Longrightarrow> first_char w = Inr (take 1 w)"
  by (cases w) (simp_all add: first_char_def)

lemma third_word_char:
  assumes "3 \<le> length (split s)"
  shows "first_char (split s ! 2) = Inr (take 1 (split s ! 2))"
proof -
  from assms have "split s ! 2 \<in> set (split s)" by simp
  then have "split s ! 2 \<noteq> []" by (rule split_nonempty)
  then show ?thesis by (rule first_char_nonempty)
qed

lemma generate_three:
  "3 \<le> length (split s) \<Longrightarrow>
   generate_company_abbreviation s =
     Inr (upper (take 3 (split s ! 0)) @ upper (take 3 (split s ! 1)) @ upper (take 1 (split s ! 2)))"
  by (simp add: generate_company_abbreviation_def Let_def third_word_char)

lemma generate_two:
  "length (split s) = 2 \<Longrightarrow>
   generate_company_abbreviation s =
     Inr (upper (take 3 (split s ! 0)) @ upper (take 3 (split s ! 1)))"
  by (simp add: generate_company_abbreviation_def Let_def)

lemma generate_one:
  "length (split s) < 2 \<Longrightarrow>
   generate_company_abbreviation s = Inr (upper (take 6 (remove_spaces s)))"
  by (simp add: generate_company_abbreviation_def Let_def)

lemma generate_returns: "\<exists>abbr. generate_company_abbreviation s = Inr abbr"
proof -
  consider "3 \<le> length (split s)" | "length (split s) = 2" | "length (split s) < 2"
    by linarith
  then show ?thesis
    by cases (simp_all add: generate_three generate_two generate_one)
qed

lemma generate_length_le:
  "generate_company_abbreviation s = Inr abbr \<Longrightarrow> length abbr \<le> 7"
proof -
  assume a: "generate_company_abbreviation s = Inr abbr"
  consider "3 \<le> length (split s)" | "length (split s) = 2" | "length (split s) < 2"
    by linarith
  then show ?thesis
  proof cases
    case 1
    with a show ?thesis by (auto simp: generate_three length_upper)
  next
    case 2
    with a show ?thesis by (auto simp: generate_two length_upper)
  next
    case 3
    with a show ?thesis by (auto simp: generate_one length_upper)
  qed
qed

subsection \<open>The lookup loop on the directory\<close>

text \<open>
  The loop returns the sentinel or one of the stored codes; the directory has four
  countries, whose city keys are already uppercase.
\<close>

lemma research_loop_range:
  "research_loop items cu = ''UNK00'' \<or> research_loop items cu \<in> snd ` set items"
  by (induction items cu rule: research_loop.induct) auto

lemma research_loop_no_match:
  "\<forall>(key, code) \<in> set items. \<not> (upper key = cu \<or> str_in cu (upper key)) \<Longrightarrow>
   research_loop items cu = ''UNK00''"
  by (induction items cu rule: research_loop.induct) auto

lemma country_data_cases:
  "dict_get UNLOCODE_DB country [] = [] \<and> map_of UNLOCODE_DB country = None
   \<or> country = ''France'' \<and> dict_get UNLOCODE_DB country [] =
        [(''MARSEILLE'', ''FRMRS''), (''MARSEILLE-EN-BEAUVAISIS'', ''FRMBE'')]
   \<or> country = ''United States'' \<and> dict_get UNLOCODE_DB country [] =
        [(''NEW YORK'', ''USNYC''), (''LOS ANGELES'', ''USLAX'')]
   \<or> country = ''Germany'' \<and> dict_get UNLOCODE_DB country [] = [(''BERLIN'', ''DEBER'')]
   \<or> country = ''China'' \<and> dict_get UNLOCODE_DB country [] =
        [(''BEIJING'', ''CNBJS''), (''SHANGHAI'', ''CNSHA'')]"
  by (simp add: dict_get_def UNLOCODE_DB_def)

lemma stored_codes_length:
  "(key, code) \<in> set (dict_get UNLOCODE_DB country []) \<Longrightarrow> length code = 5"
  using country_data_cases [of country]
  by (elim disjE conjE) auto

lemma research_length: "length (fst (simulate_research_agent country city u)) = 5"
proof -
  let ?items = "dict_get UNLOCODE_DB country []"
  let ?r = "research_loop ?items (strip (upper city))"
  have r: "fst (simulate_research_agent country city u) = ?r"
    by (simp add: simulate_research_agent_def Let_def)
  have "?r = ''UNK00'' \<or> ?r \<in> snd ` set ?items" by (rule research_loop_range)
  then show ?thesis
  proof
    assume "?r = ''UNK00''" with r show ?thesis by simp
  next
    assume "?r \<in> snd ` set ?items"
    then obtain key where "(key, ?r) \<in> set ?items" by auto
    then have "length ?r = 5" by (rule stored_codes_length)
    with r show ?thesis by simp
  qed
qed

lemma upper_keys:
  "upper ''MARSEILLE'' = ''MARSEILLE''"
  "upper ''MARSEILLE-EN-BEAUVAISIS'' = ''MARSEILLE-EN-BEAUVAISIS''"
  "upper ''NEW YORK'' = ''NEW YORK''"
  "upper ''LOS ANGELES'' = ''LOS ANGELES''"
  "upper ''BERLIN'' = ''BERLIN''"
  "upper ''BEIJING'' = ''BEIJING''"
  "upper ''SHANGHAI'' = ''SHANGHAI''"
  by (simp_all add: upper_def upper_char_def ascii_lowercase_def ascii_uppercase_def)

lemma research_exact:
  assumes "(key, code) \<in> set (dict_get UNLOCODE_DB country [])"
  shows "research_loop (dict_get UNLOCODE_DB country []) key = code"
proof -
  have not_in:
    "\<not> str_in ''MARSEILLE-EN-BEAUVAISIS'' ''MARSEILLE''"
    "\<not> str_in ''LOS ANGELES'' ''NEW YORK''"
    "\<not> str_in ''SHANGHAI'' ''BEIJING''"
    by simp_all
  from country_data_cases [of country] show ?thesis
  proof (elim disjE conjE)
    assume "dict_get UNLOCODE_DB country [] = []"
    with assms show ?thesis by simp
  next
    assume d: "dict_get UNLOCODE_DB country [] =
      [(''MARSEILLE'', ''FRMRS''), (''MARSEILLE-EN-BEAUVAISIS'', ''FRMBE'')]"
    with assms have "key = ''MARSEILLE'' \<and> code = ''FRMRS''
       \<or> key = ''MARSEILLE-EN-BEAUVAISIS'' \<and> code = ''FRMBE''" by simp
    then show ?thesis unfolding d by (elim disjE conjE) (simp_all add: upper_keys not_in)
  next
    assume d: "dict_get UNLOCODE_DB country [] =
      [(''NEW YORK'', ''USNYC''), (''LOS ANGELES'', ''USLAX'')]"
    with assms have "key = ''NEW YORK'' \<and> code = ''USNYC''
       \<or> key = ''LOS ANGELES'' \<and> code = ''USLAX''" by simp
    then show ?thesis unfolding d by (elim disjE conjE) (simp_all add: upper_keys not_in)
  next
    assume d: "dict_get UNLOCODE_DB country [] = [(''BERLIN'', ''DEBER'')]"
    with assms have "key = ''BERLIN'' \<and> code = ''DEBER''" by simp
    then show ?thesis unfolding d by (simp add: upper_keys)
  next
    assume d: "dict_get UNLOCODE_DB country [] =
      [(''BEIJING'', ''CNBJS''), (''SHANGHAI'', ''CNSHA'')]"
    with assms have "key = ''BEIJING'' \<and> code = ''CNBJS''
       \<or> key = ''SHANGHAI'' \<and> code = ''CNSHA''" by simp
    then show ?thesis unfolding d by (elim disjE conjE) (simp_all add: upper_keys not_in)
  qed
qed

subsection \<open>The lookup agent and the orchestrator\<close>

lemma lookup_agent_eq:
  "generate_company_abbreviation company_name = Inr abbr \<Longrightarrow>
   fst (simulate_lookup_agent unlocode company_name u) =
     Inr (abbr @ (if 5 \<le> length unlocode then last3 unlocode else ''UNK''), abbr,
          if 5 \<le> length unlocode then last3 unlocode else ''UNK'')"
  by (simp add: simulate_lookup_agent_def Let_def)

lemma orchestrate_eq:
  assumes "generate_company_abbreviation company_name = Inr abbr"
    and "fst (simulate_research_agent country city u) = unlocode"
    and "location_code = (if 5 \<le> length unlocode then last3 unlocode else ''UNK'')"
  shows "fst (lead_agent_orchestrate country city company_name u) =
     Inr [(''country'', country),
          (''city'', upper city),
          (''company_name'', company_name),
          (''unlocode'', unlocode),
          (''company_abbr'', abbr),
          (''location_code'', location_code),
          (''org_code'', abbr @ location_code),
          (''critique'', ''Validated: The Organization Code '' @ [CHR 0x27]
             @ (abbr @ location_code) @ [CHR 0x27]
             @ '' is correctly generated based on the UNLOCODE data.'')]"
proof -
  obtain u1 where r: "simulate_research_agent country city u = (unlocode, u1)"
    using assms(2) by (cases "simulate_research_agent country city u") simp
  show ?thesis
    using assms(1,3)
    by (simp add: lead_agent_orchestrate_def r simulate_lookup_agent_def
        simulate_critic_agent_def Let_def)
qed

subsection \<open>Stored keys and the fallback\<close>

text \<open>
  A stored key is its own normal form, and in no country is a key contained in a key
  stored before it.
\<close>

lemma strip_keys:
  "strip ''MARSEILLE'' = ''MARSEILLE''"
  "strip ''MARSEILLE-EN-BEAUVAISIS'' = ''MARSEILLE-EN-BEAUVAISIS''"
  "strip ''NEW YORK'' = ''NEW YORK''"
  "strip ''LOS ANGELES'' = ''LOS ANGELES''"
  "strip ''BERLIN'' = ''BERLIN''"
  "strip ''BEIJING'' = ''BEIJING''"
  "strip ''SHANGHAI'' = ''SHANGHAI''"
  by code_simp+

lemma stored_key_normal:
  "(key, code) \<in> set (dict_get UNLOCODE_DB country []) \<Longrightarrow> strip (upper key) = key"
  using country_data_cases [of country]
  by (elim disjE conjE) (auto simp: upper_keys strip_keys)

lemma db_member:
  "(country, items) \<in> set UNLOCODE_DB \<Longrightarrow> dict_get UNLOCODE_DB country [] = items"
  by (auto simp: UNLOCODE_DB_def dict_get_def)

lemma research_agent_eq:
  "fst (simulate_research_agent country city u) =
     research_loop (dict_get UNLOCODE_DB country []) (strip (upper city))"
  by (simp add: simulate_research_agent_def Let_def)

lemma research_fallback:
  assumes "(key, code) \<in> set (dict_get UNLOCODE_DB country [])"
    and "key \<noteq> cu"
    and "research_loop (dict_get UNLOCODE_DB country []) cu = code"
  shows "str_in cu key \<and> (\<forall>(k, c) \<in> set (dict_get UNLOCODE_DB country []). k \<noteq> cu)"
proof -
  have not_in:
    "\<not> str_in ''MARSEILLE-EN-BEAUVAISIS'' ''MARSEILLE''"
    "\<not> str_in ''LOS ANGELES'' ''NEW YORK''"
    "\<not> str_in ''SHANGHAI'' ''BEIJING''"
    by simp_all
  from country_data_cases [of country] show ?thesis
  proof (elim disjE conjE)
    assume "dict_get UNLOCODE_DB country [] = []"
    with assms show ?thesis by simp
  next
    assume d: "dict_get UNLOCODE_DB country [] =
      [(''MARSEILLE'', ''FRMRS''), (''MARSEILLE-EN-BEAUVAISIS'', ''FRMBE'')]"
    show ?thesis using assms not_in unfolding d
      by (auto simp: upper_keys split: if_splits)
  next
    assume d: "dict_get UNLOCODE_DB country [] =
      [(''NEW YORK'', ''USNYC''), (''LOS ANGELES'', ''USLAX'')]"
    show ?thesis using assms not_in unfolding d
      by (auto simp: upper_keys split: if_splits)
  next
    assume d: "dict_get UNLOCODE_DB country [] = [(''BERLIN'', ''DEBER'')]"
    show ?thesis using assms unfolding d
      by (auto simp: upper_keys split: if_splits)
  next
    assume d: "dict_get UNLOCODE_DB country [] =
      [(''BEIJING'', ''CNBJS''), (''SHANGHAI'', ''CNSHA'')]"
    show ?thesis using assms not_in unfolding d
      by (auto simp: upper_keys split: if_splits)
  qed
qed

subsection \<open>What \<open>split\<close> and \<open>in\<close> compute\<close>

text \<open>
  The words of a string, put together, are its non-whitespace characters; no word holds a
  whitespace character; and \<open>str_in\<close> is the contiguous-sublist relation.
\<close>

lemma split_scan_concat:
  "concat (split_scan cur s) = cur @ filter (\<lambda>c. \<not> isspace c) s"
  by (induction s arbitrary: cur) simp_all

lemma split_concat: "concat (split s) = filter (\<lambda>c. \<not> isspace c) s"
  by (simp add: split_def split_scan_concat)

lemma one_word_remove_spaces:
  assumes "split s = [w]" and "\<forall>c \<in> set s. isspace c \<longrightarrow> c = CHR 0x20"
  shows "remove_spaces s = w"
proof -
  from assms(2) have "filter (\<lambda>c. c \<noteq> CHR 0x20) s = filter (\<lambda>c. \<not> isspace c) s"
    by (intro filter_cong) (auto simp: isspace_def whitespace_def)
  also have "\<dots> = concat (split s)" by (simp add: split_concat)
  finally show ?thesis using assms(1) by (simp add: remove_spaces_def)
qed

lemma str_in_sublist: "str_in sub s \<longleftrightarrow> sublist sub s"
  by (induction s) (simp_all add: sublist_Cons_right)

lemma split_scan_no_space:
  "\<forall>c \<in> set cur. \<not> isspace c \<Longrightarrow> \<forall>w \<in> set (split_scan cur s). \<forall>c \<in> set w. \<not> isspace c"
proof (induction s arbitrary: cur)
  case Nil
  then show ?case by simp
next
  case (Cons a s)
  have closed: "\<forall>w \<in> set (split_scan [] s). \<forall>c \<in> set w. \<not> isspace c"
    by (rule Cons.IH) simp
  show ?case
  proof (cases "isspace a")
    case True
    with Cons.prems closed show ?thesis by auto
  next
    case False
    with Cons.prems have "\<forall>c \<in> set (cur @ [a]). \<not> isspace c" by simp
    then have "\<forall>w \<in> set (split_scan (cur @ [a]) s). \<forall>c \<in> set w. \<not> isspace c"
      by (rule Cons.IH)
    with False show ?thesis by simp
  qed
qed

lemma split_no_space: "w \<in> set (split s) \<Longrightarrow> c \<in> set w \<Longrightarrow> \<not> isspace c"
  using split_scan_no_space [of "[]" s] by (simp add: split_def)

subsection \<open>The stages of the orchestrator\<close>

lemma last3_length: "3 \<le> length s \<Longrightarrow> length (last3 s) = 3"
  by (simp add: last3_def)

lemma orchestrate_ui:
  "snd (lead_agent_orchestrate country city company_name u) =
     u\<lparr>infos := infos u @
          [''ResearchAgent: Looking up UNLOCODE data...'',
           ''LookupAgent: Processing data to generate Organization Code...'',
           ''CriticAgent: Validating the Organization Code...''],
        slept := slept u + 4\<rparr>"
proof -
  obtain abbr where g: "generate_company_abbreviation company_name = Inr abbr"
    using generate_returns by blast
  show ?thesis
    by (simp add: lead_agent_orchestrate_def simulate_research_agent_def
        simulate_lookup_agent_def simulate_critic_agent_def g Let_def st_info_def time_sleep_def)
qed

lemma orchestrate_stages:
  "\<exists>unlocode u1 org_code company_abbr location_code u2 critique u3.
      simulate_research_agent country city u = (unlocode, u1)
    \<and> generate_company_abbreviation company_name = Inr company_abbr
    \<and> simulate_lookup_agent unlocode company_name u1
        = (Inr (org_code, company_abbr, location_code), u2)
    \<and> simulate_critic_agent org_code u2 = (critique, u3)
    \<and> lead_agent_orchestrate country city company_name u =
        (Inr [(''country'', country),
              (''city'', upper city),
              (''company_name'', company_name),
              (''unlocode'', unlocode),
              (''company_abbr'', company_abbr),
              (''location_code'', location_code),
              (''org_code'', org_code),
              (''critique'', critique)], u3)
    \<and> infos u3 = infos u @
          [''ResearchAgent: Looking up UNLOCODE data...'',
           ''LookupAgent: Processing data to generate Organization Code...'',
           ''CriticAgent: Validating the Organization Code...'']"
proof -
  obtain unlocode u1 where r: "simulate_research_agent country city u = (unlocode, u1)"
    by (cases "simulate_research_agent country city u")
  obtain abbr where g: "generate_company_abbreviation company_name = Inr abbr"
    using generate_returns by blast
  obtain res u2 where l: "simulate_lookup_agent unlocode company_name u1 = (res, u2)"
    by (cases "simulate_lookup_agent unlocode company_name u1")
  have "fst (simulate_lookup_agent unlocode company_name u1) =
     Inr (abbr @ (if 5 \<le> length unlocode then last3 unlocode else ''UNK''), abbr,
          if 5 \<le> length unlocode then last3 unlocode else ''UNK'')"
    using g by (rule lookup_agent_eq)
  with l obtain org_code location_code where
    res: "res = Inr (org_code, abbr, location_code)" by simp
  obtain critique u3 where c: "simulate_critic_agent org_code u2 = (critique, u3)"
    by (cases "simulate_critic_agent org_code u2")
  have o: "lead_agent_orchestrate country city company_name u =
        (Inr [(''country'', country),
              (''city'', upper city),
              (''company_name'', company_name),
              (''unlocode'', unlocode),
              (''company_abbr'', abbr),
              (''location_code'', location_code),
              (''org_code'', org_code),
              (''critique'', critique)], u3)"
    by (simp add: lead_agent_orchestrate_def r l res c)
  have "u3 = snd (lead_agent_orchestrate country city company_name u)"
    unfolding o by simp
  then have "u3 = u\<lparr>infos := infos u @
          [''ResearchAgent: Looking up UNLOCODE data...'',
           ''LookupAgent: Processing data to generate Organization Code...'',
           ''CriticAgent: Validating the Organization Code...''],
        slept := slept u + 4\<rparr>"
    by (simp only: orchestrate_ui)
  then have i: "infos u3 = infos u @
          [''ResearchAgent: Looking up UNLOCODE data...'',
           ''LookupAgent: Processing data to generate Organization Code...'',
           ''CriticAgent: Validating the Organization Code...'']"
    by simp
  from r g l res c o i show ?thesis by blast
qed

lemma orchestrate_example:
  "fst (lead_agent_orchestrate ''France'' ''marseille'' ''TEST BY KALAI'' u) =
     Inr [(''country'', ''France''),
          (''city'', ''MARSEILLE''),
          (''company_name'', ''TEST BY KALAI''),
          (''unlocode'', ''FRMRS''),
          (''company_abbr'', ''TESBYK''),
          (''location_code'', ''MRS''),
          (''org_code'', ''TESBYKMRS''),
          (''critique'', ''Validated: The Organization Code '' @ [CHR 0x27] @ ''TESBYKMRS''
             @ [CHR 0x27] @ '' is correctly generated based on the UNLOCODE data.'')]"
proof -
  have g: "generate_company_abbreviation ''TEST BY KALAI'' = Inr ''TESBYK''" by code_simp
  have d: "dict_get UNLOCODE_DB ''France'' [] =
      [(''MARSEILLE'', ''FRMRS''), (''MARSEILLE-EN-BEAUVAISIS'', ''FRMBE'')]"
    by (simp add: dict_get_def UNLOCODE_DB_def)
  have n: "strip (upper ''marseille'') = ''MARSEILLE''" by code_simp
  have r: "fst (simulate_research_agent ''France'' ''marseille'' u) = ''FRMRS''"
    unfolding research_agent_eq d n by (simp add: upper_keys)
  have l: "''MRS'' = (if 5 \<le> length ''FRMRS'' then last3 ''FRMRS'' else ''UNK'')"
    by (simp add: last3_def)
  have c: "upper ''marseille'' = ''MARSEILLE''" by code_simp
  show ?thesis unfolding orchestrate_eq [OF g r l] c by simp
qed

section \<open>The claims\<close>

subsection \<open>C1: the segment of an unresolved lookup\<close>

text \<open>
  C1 (as amended). The sentinel \<open>UNK00\<close> has five characters, so it passes the length
  test of \<open>simulate_lookup_agent\<close> and its segment is its last three characters \<open>K00\<close>:
  for every company name the agent returns the abbreviation followed by \<open>K00\<close>, the
  abbreviation, and the segment \<open>K00\<close>. A location code shorter than five characters
  yields the segment \<open>UNK\<close>, and a code of five or more characters yields its last three
  characters; so the segment is \<open>UNK\<close> exactly when the code is shorter than five
  characters or itself ends in \<open>UNK\<close>. When the lookup of the orchestrator is unresolved,
  the caller sees the location code \<open>K00\<close> and an organization code ending in it.
\<close>

theorem sentinel_segment:
  "\<exists>abbr. generate_company_abbreviation company_name = Inr abbr
     \<and> fst (simulate_lookup_agent ''UNK00'' company_name u) = Inr (abbr @ ''K00'', abbr, ''K00'')
     \<and> (length unlocode < 5 \<longrightarrow>
          fst (simulate_lookup_agent unlocode company_name u) = Inr (abbr @ ''UNK'', abbr, ''UNK''))
     \<and> (5 \<le> length unlocode \<longrightarrow>
          fst (simulate_lookup_agent unlocode company_name u)
            = Inr (abbr @ last3 unlocode, abbr, last3 unlocode))
     \<and> (\<exists>seg. fst (simulate_lookup_agent unlocode company_name u) = Inr (abbr @ seg, abbr, seg)
           \<and> (seg = ''UNK'' \<longleftrightarrow> length unlocode < 5 \<or> last3 unlocode = ''UNK''))
     \<and> (fst (simulate_research_agent country city u) = ''UNK00'' \<longrightarrow>
          (\<exists>out. fst (lead_agent_orchestrate country city company_name u) = Inr out
             \<and> map_of out ''location_code'' = Some ''K00''
             \<and> map_of out ''org_code'' = Some (abbr @ ''K00'')))"
proof -
  obtain abbr where g: "generate_company_abbreviation company_name = Inr abbr"
    using generate_returns by blast
  let ?seg = "if 5 \<le> length unlocode then last3 unlocode else ''UNK''"
  have a: "fst (simulate_lookup_agent ''UNK00'' company_name u) = Inr (abbr @ ''K00'', abbr, ''K00'')"
    by (simp add: lookup_agent_eq [OF g] last3_def)
  have b: "length unlocode < 5 \<longrightarrow>
          fst (simulate_lookup_agent unlocode company_name u) = Inr (abbr @ ''UNK'', abbr, ''UNK'')"
    by (simp add: lookup_agent_eq [OF g])
  have b': "5 \<le> length unlocode \<longrightarrow>
          fst (simulate_lookup_agent unlocode company_name u)
            = Inr (abbr @ last3 unlocode, abbr, last3 unlocode)"
    by (simp add: lookup_agent_eq [OF g])
  have r: "fst (simulate_lookup_agent unlocode company_name u) = Inr (abbr @ ?seg, abbr, ?seg)"
    using g by (rule lookup_agent_eq)
  have e: "?seg = ''UNK'' \<longleftrightarrow> length unlocode < 5 \<or> last3 unlocode = ''UNK''"
    by (cases "5 \<le> length unlocode") simp_all
  from r e have d: "\<exists>seg. fst (simulate_lookup_agent unlocode company_name u)
        = Inr (abbr @ seg, abbr, seg)
      \<and> (seg = ''UNK'' \<longleftrightarrow> length unlocode < 5 \<or> last3 unlocode = ''UNK'')"
    by (intro exI [of _ ?seg] conjI)
  have c: "fst (simulate_research_agent country city u) = ''UNK00'' \<longrightarrow>
          (\<exists>out. fst (lead_agent_orchestrate country city company_name u) = Inr out
             \<and> map_of out ''location_code'' = Some ''K00''
             \<and> map_of out ''org_code'' = Some (abbr @ ''K00''))"
  proof
    assume r: "fst (simulate_research_agent country city u) = ''UNK00''"
    have l: "''K00'' = (if 5 \<le> length ''UNK00'' then last3 ''UNK00'' else ''UNK'')"
      by (simp add: last3_def)
    show "\<exists>out. fst (lead_agent_orchestrate country city company_name u) = Inr out
             \<and> map_of out ''location_code'' = Some ''K00''
             \<and> map_of out ''org_code'' = Some (abbr @ ''K00'')"
      unfolding orchestrate_eq [OF g r l] by simp
  qed
  from g a b b' d c show ?thesis by blast
qed

text \<open>
  The theorem at a code of three characters, which gives the segment \<open>UNK\<close>; at a code of
  five characters that ends in \<open>UNK\<close>, which gives \<open>UNK\<close> as its last three characters;
  and at the unregistered city Paris of Germany, where the caller sees \<open>K00\<close>.
\<close>

theorem sentinel_segment_witness:
  "length ''UNK'' < 5
   \<and> fst (simulate_lookup_agent ''UNK'' ''ACME'' \<lparr>infos = [], slept = 0\<rparr>)
       = Inr (''ACMEUNK'', ''ACME'', ''UNK'')
   \<and> 5 \<le> length ''XXUNK''
   \<and> fst (simulate_lookup_agent ''XXUNK'' ''ACME'' \<lparr>infos = [], slept = 0\<rparr>)
       = Inr (''ACMEUNK'', ''ACME'', ''UNK'')
   \<and> fst (simulate_research_agent ''Germany'' ''Paris'' \<lparr>infos = [], slept = 0\<rparr>) = ''UNK00''
   \<and> (\<exists>out. fst (lead_agent_orchestrate ''Germany'' ''Paris'' ''ACME'' \<lparr>infos = [], slept = 0\<rparr>)
         = Inr out
       \<and> map_of out ''location_code'' = Some ''K00''
       \<and> map_of out ''org_code'' = Some ''ACMEK00'')"
proof -
  let ?u = "\<lparr>infos = [], slept = 0\<rparr>"
  have g: "generate_company_abbreviation ''ACME'' = Inr ''ACME''" by code_simp
  have r: "fst (simulate_research_agent ''Germany'' ''Paris'' ?u) = ''UNK00''"
    by code_simp
  have l: "last3 ''XXUNK'' = ''UNK''" by code_simp
  from sentinel_segment [of "''ACME''" ?u "''UNK''" "''Germany''" "''Paris''"]
  have short: "length ''UNK'' < 5
   \<and> fst (simulate_lookup_agent ''UNK'' ''ACME'' ?u) = Inr (''ACMEUNK'', ''ACME'', ''UNK'')
   \<and> fst (simulate_research_agent ''Germany'' ''Paris'' ?u) = ''UNK00''
   \<and> (\<exists>out. fst (lead_agent_orchestrate ''Germany'' ''Paris'' ''ACME'' ?u) = Inr out
       \<and> map_of out ''location_code'' = Some ''K00''
       \<and> map_of out ''org_code'' = Some ''ACMEK00'')"
    using g r by auto
  from sentinel_segment [of "''ACME''" ?u "''XXUNK''" "''Germany''" "''Paris''"]
  have long: "5 \<le> length ''XXUNK''
   \<and> fst (simulate_lookup_agent ''XXUNK'' ''ACME'' ?u) = Inr (''ACMEUNK'', ''ACME'', ''UNK'')"
    using g l by auto
  from short long show ?thesis by blast
qed

text \<open>
  C1 as the specification states it fails: on the sentinel \<open>UNK00\<close> and the name \<open>ACME\<close> the
  agent returns the organization code \<open>ACMEK00\<close> and the segment \<open>K00\<close>, not \<open>ACMEUNK\<close>
  and \<open>UNK\<close>.
\<close>

theorem sentinel_segment_counterexample:
  "fst (simulate_lookup_agent ''UNK00'' ''ACME'' \<lparr>infos = [], slept = 0\<rparr>)
     = Inr (''ACMEK00'', ''ACME'', ''K00'')
   \<and> fst (simulate_lookup_agent ''UNK00'' ''ACME'' \<lparr>infos = [], slept = 0\<rparr>)
     \<noteq> Inr (''ACMEUNK'', ''ACME'', ''UNK'')"
  by code_simp

subsection \<open>C2: the looked-up code has five characters\<close>

text \<open>
  C2. For every country and city the code returned by \<open>simulate_research_agent\<close> has
  exactly five characters: it is the sentinel \<open>UNK00\<close> or a code stored for that country.
  Hence, fed to \<open>simulate_lookup_agent\<close> with any company name, it passes the length
  test: the segment is the last three characters of the code, it is never the fallback
  \<open>UNK\<close>, and for the sentinel it is \<open>K00\<close>.
\<close>

theorem research_code_length:
  "length (fst (simulate_research_agent country city u)) = 5
   \<and> (fst (simulate_research_agent country city u) = ''UNK00''
        \<or> fst (simulate_research_agent country city u) \<in> snd ` set (dict_get UNLOCODE_DB country []))
   \<and> (\<exists>abbr. fst (simulate_lookup_agent (fst (simulate_research_agent country city u)) company_name u')
          = Inr (abbr @ last3 (fst (simulate_research_agent country city u)), abbr,
                 last3 (fst (simulate_research_agent country city u))))
   \<and> last3 (fst (simulate_research_agent country city u)) \<noteq> ''UNK''
   \<and> last3 ''UNK00'' = ''K00''"
proof -
  let ?code = "fst (simulate_research_agent country city u)"
  have len: "length ?code = 5" by (rule research_length)
  have r: "?code = research_loop (dict_get UNLOCODE_DB country []) (strip (upper city))"
    by (simp add: simulate_research_agent_def Let_def)
  have rng: "?code = ''UNK00'' \<or> ?code \<in> snd ` set (dict_get UNLOCODE_DB country [])"
    unfolding r by (rule research_loop_range)
  obtain abbr where g: "generate_company_abbreviation company_name = Inr abbr"
    using generate_returns by blast
  have seg: "fst (simulate_lookup_agent ?code company_name u')
          = Inr (abbr @ last3 ?code, abbr, last3 ?code)"
    by (simp add: lookup_agent_eq [OF g] len)
  have ne: "last3 ?code \<noteq> ''UNK''"
    using rng country_data_cases [of country]
    by (elim disjE conjE) (auto simp: last3_def)
  have "last3 ''UNK00'' = ''K00''" by (simp add: last3_def)
  with len rng seg ne show ?thesis by blast
qed

text \<open>The theorem at a city that China does not list.\<close>

theorem research_code_length_witness:
  "length (fst (simulate_research_agent ''China'' ''Oslo'' \<lparr>infos = [], slept = 0\<rparr>)) = 5
   \<and> fst (simulate_research_agent ''China'' ''Oslo'' \<lparr>infos = [], slept = 0\<rparr>) = ''UNK00''
   \<and> fst (simulate_lookup_agent ''UNK00'' ''Acme Global'' \<lparr>infos = [], slept = 0\<rparr>)
       = Inr (''ACMGLOK00'', ''ACMGLO'', ''K00'')"
proof -
  have r: "fst (simulate_research_agent ''China'' ''Oslo'' \<lparr>infos = [], slept = 0\<rparr>) = ''UNK00''"
    by code_simp
  have g: "generate_company_abbreviation ''Acme Global'' = Inr ''ACMGLO''" by code_simp
  from research_code_length [of "''China''" "''Oslo''" "\<lparr>infos = [], slept = 0\<rparr>"
      "''Acme Global''" "\<lparr>infos = [], slept = 0\<rparr>"]
  show ?thesis using r g by (auto simp: lookup_agent_eq)
qed

subsection \<open>C3: the length of the abbreviation\<close>

text \<open>
  C3 (as amended). For every company name, \<open>generate_company_abbreviation\<close> returns an
  abbreviation of at most seven characters. It has at least three characters when the
  name splits into three or more words; with fewer words it can be shorter.
\<close>

theorem abbreviation_length:
  "\<exists>abbr. generate_company_abbreviation company_name = Inr abbr
     \<and> length abbr \<le> 7
     \<and> (3 \<le> length (split company_name) \<longrightarrow> 3 \<le> length abbr)"
proof -
  obtain abbr where g: "generate_company_abbreviation company_name = Inr abbr"
    using generate_returns by blast
  have le: "length abbr \<le> 7" using g by (rule generate_length_le)
  have ge: "3 \<le> length (split company_name) \<longrightarrow> 3 \<le> length abbr"
  proof
    assume w: "3 \<le> length (split company_name)"
    have "split company_name ! 0 \<noteq> []" "split company_name ! 1 \<noteq> []" "split company_name ! 2 \<noteq> []"
      using w by (auto intro!: split_nth_nonempty)
    then have "1 \<le> length (take 3 (split company_name ! 0))"
      "1 \<le> length (take 3 (split company_name ! 1))"
      "1 \<le> length (take 1 (split company_name ! 2))"
      by (simp_all add: Suc_le_eq)
    moreover have "abbr = upper (take 3 (split company_name ! 0)) @ upper (take 3 (split company_name ! 1))
        @ upper (take 1 (split company_name ! 2))"
      using g generate_three [OF w] by simp
    ultimately show "3 \<le> length abbr" by (simp add: length_upper)
  qed
  from g le ge show ?thesis by blast
qed

text \<open>The theorem at a name of three one-letter words, where both bounds are met.\<close>

theorem abbreviation_length_witness:
  "3 \<le> length (split ''a b c'') \<and> generate_company_abbreviation ''a b c'' = Inr ''ABC''
   \<and> 3 \<le> length ''ABC'' \<and> length ''ABC'' \<le> 7"
proof -
  have s: "split ''a b c'' = [''a'', ''b'', ''c'']" by code_simp
  have g: "generate_company_abbreviation ''a b c'' = Inr ''ABC''" by code_simp
  from abbreviation_length [of "''a b c''"] show ?thesis using s g by auto
qed

text \<open>
  C3 as the specification states it fails: the non-empty name \<open>A\<close> has the abbreviation
  \<open>A\<close>, of one character, below the stated minimum of three.
\<close>

theorem abbreviation_length_counterexample:
  "generate_company_abbreviation ''A'' = Inr ''A'' \<and> ''A'' \<noteq> [] \<and> length ''A'' < 3"
  by code_simp

subsection \<open>C4: an exact match comes before the substring fallback\<close>

text \<open>
  C4. For every country and city, with the city normalized (uppercased and trimmed) and
  the city keys stored for the country: if the normalized city equals a stored key,
  \<open>simulate_research_agent\<close> returns the code stored under that key, also when another
  key contains the city; and if it returns the code of a key that differs from the
  normalized city, then that key contains the city and no stored key equals it, so the
  substring fallback decides only when there is no exact match.
\<close>

theorem exact_match_precedence:
  assumes "cu = strip (upper city)" and "items = dict_get UNLOCODE_DB country []"
  shows "((key, code) \<in> set items \<and> key = cu \<longrightarrow>
            fst (simulate_research_agent country city u) = code)
       \<and> ((key', code') \<in> set items \<and> key' \<noteq> cu
            \<and> fst (simulate_research_agent country city u) = code' \<longrightarrow>
            str_in cu key' \<and> (\<forall>(k, c) \<in> set items. k \<noteq> cu))"
proof (intro conjI impI)
  assume a: "(key, code) \<in> set items \<and> key = cu"
  then have "(key, code) \<in> set (dict_get UNLOCODE_DB country [])"
    using assms(2) by blast
  then have "research_loop (dict_get UNLOCODE_DB country []) key = code"
    by (rule research_exact)
  with a assms(1) show "fst (simulate_research_agent country city u) = code"
    by (simp add: research_agent_eq)
next
  assume a: "(key', code') \<in> set items \<and> key' \<noteq> cu
            \<and> fst (simulate_research_agent country city u) = code'"
  then have "research_loop (dict_get UNLOCODE_DB country []) cu = code'"
    using assms(1) by (simp add: research_agent_eq)
  with a assms(2)
  have "str_in cu key' \<and> (\<forall>(k, c) \<in> set (dict_get UNLOCODE_DB country []). k \<noteq> cu)"
    by (intro research_fallback) simp_all
  with assms(2) show "str_in cu key'" "\<forall>(k, c) \<in> set items. k \<noteq> cu" by simp_all
qed

text \<open>
  The theorem at France: the city \<open>Marseille\<close>, which equals one key and is contained
  in the other, gets the code of the key it equals; the city \<open>beauvais\<close>, which equals
  no key, gets the code of the key that contains it.
\<close>

theorem exact_match_precedence_witness:
  "strip (upper '' Marseille '') = ''MARSEILLE''
   \<and> dict_get UNLOCODE_DB ''France'' [] =
       [(''MARSEILLE'', ''FRMRS''), (''MARSEILLE-EN-BEAUVAISIS'', ''FRMBE'')]
   \<and> str_in ''MARSEILLE'' ''MARSEILLE-EN-BEAUVAISIS''
   \<and> fst (simulate_research_agent ''France'' '' Marseille '' \<lparr>infos = [], slept = 0\<rparr>) = ''FRMRS''
   \<and> strip (upper ''beauvais'') = ''BEAUVAIS''
   \<and> fst (simulate_research_agent ''France'' ''beauvais'' \<lparr>infos = [], slept = 0\<rparr>) = ''FRMBE''
   \<and> str_in ''BEAUVAIS'' ''MARSEILLE-EN-BEAUVAISIS''
   \<and> ''MARSEILLE'' \<noteq> ''BEAUVAIS''"
proof -
  let ?u = "\<lparr>infos = [], slept = 0\<rparr>"
  have n1: "strip (upper '' Marseille '') = ''MARSEILLE''" by code_simp
  have n2: "strip (upper ''beauvais'') = ''BEAUVAIS''" by code_simp
  have d: "dict_get UNLOCODE_DB ''France'' [] =
      [(''MARSEILLE'', ''FRMRS''), (''MARSEILLE-EN-BEAUVAISIS'', ''FRMBE'')]" by code_simp
  have s: "str_in ''MARSEILLE'' ''MARSEILLE-EN-BEAUVAISIS''" by code_simp
  have r2: "fst (simulate_research_agent ''France'' ''beauvais'' ?u) = ''FRMBE''" by code_simp
  have ne: "''MARSEILLE'' \<noteq> ''BEAUVAIS''" by simp
  have t1: "fst (simulate_research_agent ''France'' '' Marseille '' ?u) = ''FRMRS''"
    using exact_match_precedence [OF n1 [symmetric] d [symmetric],
        of "''MARSEILLE''" "''FRMRS''" ?u]
    by simp
  have t2: "str_in ''BEAUVAIS'' ''MARSEILLE-EN-BEAUVAISIS''"
    using exact_match_precedence [OF n2 [symmetric] d [symmetric],
        of _ _ ?u "''MARSEILLE-EN-BEAUVAISIS''" "''FRMBE''"] r2
    by simp
  show ?thesis
    unfolding n1 n2 d r2 t1 using s t2 ne by (intro conjI) (rule refl | assumption)+
qed

subsection \<open>C5: the word-count rule of the abbreviation\<close>

text \<open>
  C5. \<open>generate_company_abbreviation\<close> follows the word-count rule. When the name splits
  into three or more words, the result is the uppercased concatenation of the first three
  characters of the first word, the first three of the second and the first character of
  the third, each slice taking what the word has and nothing being padded. When it splits
  into two words, the result is the first three characters of each, uppercased. When it is
  one word, the result is the first six characters of the name with its spaces removed,
  uppercased; that is the first six characters of the word when the name has no whitespace
  other than spaces. So \<open>Acme Global Logistics\<close> gives \<open>ACMGLOL\<close>, \<open>Acme Global\<close> gives
  \<open>ACMGLO\<close>, \<open>Acme\<close> gives \<open>ACME\<close> and \<open>Acmecorp\<close> gives \<open>ACMECO\<close>.
\<close>

theorem abbreviation_rule:
  "(split company_name = w1 # w2 # w3 # ws \<longrightarrow>
      generate_company_abbreviation company_name = Inr (upper (take 3 w1 @ take 3 w2 @ take 1 w3)))
   \<and> (split company_name = [w1, w2] \<longrightarrow>
      generate_company_abbreviation company_name = Inr (upper (take 3 w1 @ take 3 w2)))
   \<and> (split company_name = [w1] \<longrightarrow>
      generate_company_abbreviation company_name = Inr (upper (take 6 (remove_spaces company_name))))
   \<and> (split company_name = [w1] \<and> (\<forall>c \<in> set company_name. isspace c \<longrightarrow> c = CHR 0x20) \<longrightarrow>
      generate_company_abbreviation company_name = Inr (upper (take 6 w1)))
   \<and> generate_company_abbreviation ''Acme Global Logistics'' = Inr ''ACMGLOL''
   \<and> generate_company_abbreviation ''Acme Global'' = Inr ''ACMGLO''
   \<and> generate_company_abbreviation ''Acme'' = Inr ''ACME''
   \<and> generate_company_abbreviation ''Acmecorp'' = Inr ''ACMECO''"
proof (intro conjI impI)
  assume "split company_name = w1 # w2 # w3 # ws"
  then show "generate_company_abbreviation company_name
      = Inr (upper (take 3 w1 @ take 3 w2 @ take 1 w3))"
    by (simp add: generate_three upper_append)
next
  assume "split company_name = [w1, w2]"
  then show "generate_company_abbreviation company_name = Inr (upper (take 3 w1 @ take 3 w2))"
    by (simp add: generate_two upper_append)
next
  assume "split company_name = [w1]"
  then show "generate_company_abbreviation company_name
      = Inr (upper (take 6 (remove_spaces company_name)))"
    by (simp add: generate_one)
next
  assume a: "split company_name = [w1] \<and> (\<forall>c \<in> set company_name. isspace c \<longrightarrow> c = CHR 0x20)"
  then have "remove_spaces company_name = w1" by (intro one_word_remove_spaces) simp_all
  with a show "generate_company_abbreviation company_name = Inr (upper (take 6 w1))"
    by (simp add: generate_one)
next
  show "generate_company_abbreviation ''Acme Global Logistics'' = Inr ''ACMGLOL''" by code_simp
next
  show "generate_company_abbreviation ''Acme Global'' = Inr ''ACMGLO''" by code_simp
next
  show "generate_company_abbreviation ''Acme'' = Inr ''ACME''" by code_simp
next
  show "generate_company_abbreviation ''Acmecorp'' = Inr ''ACMECO''" by code_simp
qed

text \<open>
  The rule at a name of four words, at one of two words of which the first is short, and
  at a single word between spaces.
\<close>

theorem abbreviation_rule_witness:
  "split ''Test by Kalai Ltd'' = [''Test'', ''by'', ''Kalai'', ''Ltd'']
   \<and> generate_company_abbreviation ''Test by Kalai Ltd'' = Inr ''TESBYK''
   \<and> split ''Ab  Cdef'' = [''Ab'', ''Cdef'']
   \<and> generate_company_abbreviation ''Ab  Cdef'' = Inr ''ABCDE''
   \<and> split '' Acmecorp '' = [''Acmecorp'']
   \<and> generate_company_abbreviation '' Acmecorp '' = Inr ''ACMECO''"
proof -
  have s3: "split ''Test by Kalai Ltd'' = [''Test'', ''by'', ''Kalai'', ''Ltd'']" by code_simp
  have s2: "split ''Ab  Cdef'' = [''Ab'', ''Cdef'']" by code_simp
  have s1: "split '' Acmecorp '' = [''Acmecorp'']" by code_simp
  have sp: "\<forall>c \<in> set '' Acmecorp ''. isspace c \<longrightarrow> c = CHR 0x20" by code_simp
  have u3: "upper (take 3 ''Test'' @ take 3 ''by'' @ take 1 ''Kalai'') = ''TESBYK''" by code_simp
  have u2: "upper (take 3 ''Ab'' @ take 3 ''Cdef'') = ''ABCDE''" by code_simp
  have u1: "upper (take 6 ''Acmecorp'') = ''ACMECO''" by code_simp
  have g3: "generate_company_abbreviation ''Test by Kalai Ltd'' = Inr ''TESBYK''"
    using abbreviation_rule [of "''Test by Kalai Ltd''" "''Test''" "''by''" "''Kalai''" "[''Ltd'']",
        THEN conjunct1, THEN mp, OF s3]
    unfolding u3 .
  have g2: "generate_company_abbreviation ''Ab  Cdef'' = Inr ''ABCDE''"
    using abbreviation_rule [of "''Ab  Cdef''" "''Ab''" "''Cdef''",
        THEN conjunct2, THEN conjunct1, THEN mp, OF s2]
    unfolding u2 .
  have g1: "generate_company_abbreviation '' Acmecorp '' = Inr ''ACMECO''"
    using abbreviation_rule [of "'' Acmecorp ''" "''Acmecorp''",
        THEN conjunct2, THEN conjunct2, THEN conjunct2, THEN conjunct1, THEN mp,
        OF conjI [OF s1 sp]]
    unfolding u1 .
  from s3 g3 s2 g2 s1 g1 show ?thesis by (intro conjI)
qed

subsection \<open>C6: registered pairs and the sentinel\<close>

text \<open>
  C6. For every country of the directory and every city key stored for it,
  \<open>simulate_research_agent\<close> on that country and that key returns the code stored under
  the key, a code of five characters. When the country has no entry, or no key stored for
  it matches the city (none equals the normalized city and none contains it), the agent
  returns the sentinel \<open>UNK00\<close>. The agent returns a string in every case: no operation
  of it can raise.
\<close>

theorem directory_lookup:
  "((country, items) \<in> set UNLOCODE_DB \<and> (key, code) \<in> set items \<longrightarrow>
      fst (simulate_research_agent country key u) = code \<and> length code = 5)
   \<and> (map_of UNLOCODE_DB country = None
        \<or> (\<forall>(k, c) \<in> set (dict_get UNLOCODE_DB country []).
              upper k \<noteq> strip (upper city) \<and> \<not> str_in (strip (upper city)) (upper k)) \<longrightarrow>
      fst (simulate_research_agent country city u) = ''UNK00'')"
proof (intro conjI impI)
  assume a: "(country, items) \<in> set UNLOCODE_DB \<and> (key, code) \<in> set items"
  then have "dict_get UNLOCODE_DB country [] = items"
    by (intro db_member) blast
  with a have m: "(key, code) \<in> set (dict_get UNLOCODE_DB country [])"
    by blast
  then have "research_loop (dict_get UNLOCODE_DB country []) key = code"
    by (rule research_exact)
  moreover from m have "strip (upper key) = key" by (rule stored_key_normal)
  ultimately show "fst (simulate_research_agent country key u) = code"
    by (simp add: research_agent_eq)
  from m show "length code = 5" by (rule stored_codes_length)
next
  assume "map_of UNLOCODE_DB country = None
        \<or> (\<forall>(k, c) \<in> set (dict_get UNLOCODE_DB country []).
              upper k \<noteq> strip (upper city) \<and> \<not> str_in (strip (upper city)) (upper k))"
  then have "\<forall>(k, c) \<in> set (dict_get UNLOCODE_DB country []).
      \<not> (upper k = strip (upper city) \<or> str_in (strip (upper city)) (upper k))"
    by (auto simp: dict_get_def)
  then show "fst (simulate_research_agent country city u) = ''UNK00''"
    unfolding research_agent_eq by (rule research_loop_no_match)
qed

text \<open>
  The theorem at a registered pair, at a country without an entry, and at a city that no
  key of Germany matches.
\<close>

theorem directory_lookup_witness:
  "(''United States'', [(''NEW YORK'', ''USNYC''), (''LOS ANGELES'', ''USLAX'')]) \<in> set UNLOCODE_DB
   \<and> fst (simulate_research_agent ''United States'' ''LOS ANGELES'' \<lparr>infos = [], slept = 0\<rparr>)
       = ''USLAX''
   \<and> map_of UNLOCODE_DB ''Spain'' = None
   \<and> fst (simulate_research_agent ''Spain'' ''Madrid'' \<lparr>infos = [], slept = 0\<rparr>) = ''UNK00''
   \<and> fst (simulate_research_agent ''Germany'' ''Bonn'' \<lparr>infos = [], slept = 0\<rparr>) = ''UNK00''"
proof -
  let ?u = "\<lparr>infos = [], slept = 0\<rparr>"
  have m: "(''United States'', [(''NEW YORK'', ''USNYC''), (''LOS ANGELES'', ''USLAX'')])
      \<in> set UNLOCODE_DB" by (simp add: UNLOCODE_DB_def)
  have n: "map_of UNLOCODE_DB ''Spain'' = None" by (simp add: UNLOCODE_DB_def)
  have d: "dict_get UNLOCODE_DB ''Germany'' [] = [(''BERLIN'', ''DEBER'')]" by code_simp
  have b: "strip (upper ''Bonn'') = ''BONN''" by code_simp
  have nb: "\<not> str_in ''BONN'' ''BERLIN''" by code_simp
  have t1: "fst (simulate_research_agent ''United States'' ''LOS ANGELES'' ?u) = ''USLAX''"
    using directory_lookup [of "''United States''"
        "[(''NEW YORK'', ''USNYC''), (''LOS ANGELES'', ''USLAX'')]" "''LOS ANGELES''" "''USLAX''" ?u] m
    by simp
  have t2: "fst (simulate_research_agent ''Spain'' ''Madrid'' ?u) = ''UNK00''"
    using directory_lookup [of "''Spain''" _ _ _ ?u "''Madrid''"] n by simp
  have t3: "fst (simulate_research_agent ''Germany'' ''Bonn'' ?u) = ''UNK00''"
    using directory_lookup [of "''Germany''" _ _ _ ?u "''Bonn''"] d b nb
    by (simp add: upper_keys)
  from m t1 n t2 t3 show ?thesis by (intro conjI)
qed

subsection \<open>C7: the organization code is the abbreviation followed by the segment\<close>

text \<open>
  C7. For every location code and every company name, \<open>simulate_lookup_agent\<close> returns the
  organization code that is exactly the company abbreviation (the one it generates from
  the name and returns) followed by the location segment. The segment has three
  characters: the last three of a location code of five or more characters, \<open>UNK\<close>
  otherwise. So the length of the organization code is the length of the abbreviation
  plus three.
\<close>

theorem assembled_code:
  "\<exists>abbr seg. generate_company_abbreviation company_name = Inr abbr
     \<and> fst (simulate_lookup_agent unlocode company_name u) = Inr (abbr @ seg, abbr, seg)
     \<and> length seg = 3
     \<and> length (abbr @ seg) = length abbr + 3
     \<and> (5 \<le> length unlocode \<longrightarrow> seg = last3 unlocode)
     \<and> (length unlocode < 5 \<longrightarrow> seg = ''UNK'')"
proof -
  obtain abbr where g: "generate_company_abbreviation company_name = Inr abbr"
    using generate_returns by blast
  let ?seg = "if 5 \<le> length unlocode then last3 unlocode else ''UNK''"
  have r: "fst (simulate_lookup_agent unlocode company_name u) = Inr (abbr @ ?seg, abbr, ?seg)"
    using g by (rule lookup_agent_eq)
  have l: "length ?seg = 3" by (simp add: last3_length)
  have "5 \<le> length unlocode \<longrightarrow> ?seg = last3 unlocode"
    and "length unlocode < 5 \<longrightarrow> ?seg = ''UNK''" by simp_all
  with g r l show ?thesis by (intro exI [of _ abbr] exI [of _ ?seg]) simp
qed

text \<open>The theorem at a code of five characters and at a code of two.\<close>

theorem assembled_code_witness:
  "5 \<le> length ''FRMRS''
   \<and> fst (simulate_lookup_agent ''FRMRS'' ''Acme Global Logistics'' \<lparr>infos = [], slept = 0\<rparr>)
       = Inr (''ACMGLOLMRS'', ''ACMGLOL'', ''MRS'')
   \<and> length ''ACMGLOLMRS'' = length ''ACMGLOL'' + 3
   \<and> length ''DE'' < 5
   \<and> fst (simulate_lookup_agent ''DE'' ''Acme Global Logistics'' \<lparr>infos = [], slept = 0\<rparr>)
       = Inr (''ACMGLOLUNK'', ''ACMGLOL'', ''UNK'')"
proof -
  let ?u = "\<lparr>infos = [], slept = 0\<rparr>"
  have g: "generate_company_abbreviation ''Acme Global Logistics'' = Inr ''ACMGLOL''"
    by code_simp
  have l: "last3 ''FRMRS'' = ''MRS''" by code_simp
  have a: "fst (simulate_lookup_agent ''FRMRS'' ''Acme Global Logistics'' ?u)
       = Inr (''ACMGLOLMRS'', ''ACMGLOL'', ''MRS'')"
    using assembled_code [of "''Acme Global Logistics''" "''FRMRS''" ?u] g l by auto
  have b: "fst (simulate_lookup_agent ''DE'' ''Acme Global Logistics'' ?u)
       = Inr (''ACMGLOLUNK'', ''ACMGLOL'', ''UNK'')"
    using assembled_code [of "''Acme Global Logistics''" "''DE''" ?u] g by auto
  from a b show ?thesis by simp
qed

subsection \<open>C8: the orchestrator threads the stages\<close>

text \<open>
  C8. \<open>lead_agent_orchestrate\<close> runs the stages in order, none skipped, the output of each
  the input of the next: the code is looked up from the country and the city; the
  abbreviation is generated from the company name; the lookup agent, given that code and
  the name, assembles the organization code and the segment around that abbreviation; the
  critic agent produces the message for that organization code. The result holds the
  inputs (the city uppercased) and these values, and the three agents have shown their
  messages in that order. End to end, France, \<open>marseille\<close> and \<open>TEST BY KALAI\<close> give the
  location code \<open>FRMRS\<close>, the abbreviation \<open>TESBYK\<close> and the organization code
  \<open>TESBYKMRS\<close>.
\<close>

theorem orchestrate_threads_stages:
  "(\<exists>unlocode u1 org_code company_abbr location_code u2 critique u3.
      simulate_research_agent country city u = (unlocode, u1)
    \<and> generate_company_abbreviation company_name = Inr company_abbr
    \<and> simulate_lookup_agent unlocode company_name u1
        = (Inr (org_code, company_abbr, location_code), u2)
    \<and> simulate_critic_agent org_code u2 = (critique, u3)
    \<and> lead_agent_orchestrate country city company_name u =
        (Inr [(''country'', country),
              (''city'', upper city),
              (''company_name'', company_name),
              (''unlocode'', unlocode),
              (''company_abbr'', company_abbr),
              (''location_code'', location_code),
              (''org_code'', org_code),
              (''critique'', critique)], u3)
    \<and> infos u3 = infos u @
          [''ResearchAgent: Looking up UNLOCODE data...'',
           ''LookupAgent: Processing data to generate Organization Code...'',
           ''CriticAgent: Validating the Organization Code...''])
   \<and> fst (lead_agent_orchestrate ''France'' ''marseille'' ''TEST BY KALAI'' u) =
     Inr [(''country'', ''France''),
          (''city'', ''MARSEILLE''),
          (''company_name'', ''TEST BY KALAI''),
          (''unlocode'', ''FRMRS''),
          (''company_abbr'', ''TESBYK''),
          (''location_code'', ''MRS''),
          (''org_code'', ''TESBYKMRS''),
          (''critique'', ''Validated: The Organization Code '' @ [CHR 0x27] @ ''TESBYKMRS''
             @ [CHR 0x27] @ '' is correctly generated based on the UNLOCODE data.'')]"
  using orchestrate_stages [of country city u company_name] orchestrate_example [of u]
  by (rule conjI)

text \<open>The theorem at Germany, \<open>berlin\<close> and \<open>Acme Global\<close>, from a fresh interface.\<close>

theorem orchestrate_threads_stages_witness:
  "lead_agent_orchestrate ''Germany'' ''berlin'' ''Acme Global'' \<lparr>infos = [], slept = 0\<rparr> =
     (Inr [(''country'', ''Germany''),
           (''city'', ''BERLIN''),
           (''company_name'', ''Acme Global''),
           (''unlocode'', ''DEBER''),
           (''company_abbr'', ''ACMGLO''),
           (''location_code'', ''BER''),
           (''org_code'', ''ACMGLOBER''),
           (''critique'', ''Validated: The Organization Code '' @ [CHR 0x27] @ ''ACMGLOBER''
              @ [CHR 0x27] @ '' is correctly generated based on the UNLOCODE data.'')],
      \<lparr>infos = [''ResearchAgent: Looking up UNLOCODE data...'',
                ''LookupAgent: Processing data to generate Organization Code...'',
                ''CriticAgent: Validating the Organization Code...''],
       slept = 4\<rparr>)"
proof -
  let ?u = "\<lparr>infos = [], slept = 0\<rparr>"
  from orchestrate_threads_stages [of "''Germany''" "''berlin''" ?u "''Acme Global''"]
  obtain unlocode u1 org_code company_abbr location_code u2 critique u3 where
    r: "simulate_research_agent ''Germany'' ''berlin'' ?u = (unlocode, u1)" and
    g: "generate_company_abbreviation ''Acme Global'' = Inr company_abbr" and
    l: "simulate_lookup_agent unlocode ''Acme Global'' u1
        = (Inr (org_code, company_abbr, location_code), u2)" and
    c: "simulate_critic_agent org_code u2 = (critique, u3)" and
    o: "lead_agent_orchestrate ''Germany'' ''berlin'' ''Acme Global'' ?u =
        (Inr [(''country'', ''Germany''),
              (''city'', upper ''berlin''),
              (''company_name'', ''Acme Global''),
              (''unlocode'', unlocode),
              (''company_abbr'', company_abbr),
              (''location_code'', location_code),
              (''org_code'', org_code),
              (''critique'', critique)], u3)"
    by blast
  have r': "simulate_research_agent ''Germany'' ''berlin'' ?u =
      (''DEBER'', \<lparr>infos = [''ResearchAgent: Looking up UNLOCODE data...''], slept = 2\<rparr>)"
    by code_simp
  from trans [OF r [symmetric] r'] have 1: "unlocode = ''DEBER''"
    "u1 = \<lparr>infos = [''ResearchAgent: Looking up UNLOCODE data...''], slept = 2\<rparr>" by simp_all
  have l': "simulate_lookup_agent ''DEBER'' ''Acme Global''
      \<lparr>infos = [''ResearchAgent: Looking up UNLOCODE data...''], slept = 2\<rparr> =
      (Inr (''ACMGLOBER'', ''ACMGLO'', ''BER''),
       \<lparr>infos = [''ResearchAgent: Looking up UNLOCODE data...'',
                 ''LookupAgent: Processing data to generate Organization Code...''],
        slept = 3\<rparr>)"
    by code_simp
  from trans [OF l [unfolded 1, symmetric] l'] have 2: "org_code = ''ACMGLOBER''" "company_abbr = ''ACMGLO''" "location_code = ''BER''"
    "u2 = \<lparr>infos = [''ResearchAgent: Looking up UNLOCODE data...'',
                 ''LookupAgent: Processing data to generate Organization Code...''],
        slept = 3\<rparr>" by simp_all
  have c': "simulate_critic_agent ''ACMGLOBER''
       \<lparr>infos = [''ResearchAgent: Looking up UNLOCODE data...'',
                 ''LookupAgent: Processing data to generate Organization Code...''],
        slept = 3\<rparr> =
       (''Validated: The Organization Code '' @ [CHR 0x27] @ ''ACMGLOBER''
              @ [CHR 0x27] @ '' is correctly generated based on the UNLOCODE data.'',
        \<lparr>infos = [''ResearchAgent: Looking up UNLOCODE data...'',
                ''LookupAgent: Processing data to generate Organization Code...'',
                ''CriticAgent: Validating the Organization Code...''],
       slept = 4\<rparr>)"
    by code_simp
  from trans [OF c [unfolded 2, symmetric] c'] have 3: "critique = ''Validated: The Organization Code '' @ [CHR 0x27] @ ''ACMGLOBER''
              @ [CHR 0x27] @ '' is correctly generated based on the UNLOCODE data.''"
    "u3 = \<lparr>infos = [''ResearchAgent: Looking up UNLOCODE data...'',
                ''LookupAgent: Processing data to generate Organization Code...'',
                ''CriticAgent: Validating the Organization Code...''],
       slept = 4\<rparr>" by simp_all
  have u: "upper ''berlin'' = ''BERLIN''" by code_simp
  show ?thesis unfolding o 1 2 3 u by (rule refl)
qed

subsection \<open>C9: the pipeline is total\<close>

text \<open>
  C9. For all strings, every stage returns a value and none raises. The functions of the
  model are total (each recursion is structural), and the one operation that could raise,
  the access to the first character of the third word, never does: the abbreviation
  generator returns an abbreviation, the lookup agent returns its triple, the
  orchestrator returns its result, for every input. The reason is that every word
  produced by \<open>split\<close> is non-empty, so a third word, when there is one, has a first
  character. (The research and critic agents have no operation that can raise; their
  results are plain strings.)
\<close>

theorem pipeline_total:
  "(\<exists>abbr. generate_company_abbreviation company_name = Inr abbr)
   \<and> (\<exists>res u'. simulate_lookup_agent unlocode company_name u = (Inr res, u'))
   \<and> (\<exists>out u'. lead_agent_orchestrate country city company_name u = (Inr out, u'))
   \<and> (\<forall>w \<in> set (split company_name). w \<noteq> [])
   \<and> (3 \<le> length (split company_name) \<longrightarrow>
        (\<exists>c. first_char (split company_name ! 2) = Inr [c]))"
proof (intro conjI)
  show "\<exists>abbr. generate_company_abbreviation company_name = Inr abbr"
    by (rule generate_returns)
next
  obtain abbr where g: "generate_company_abbreviation company_name = Inr abbr"
    using generate_returns by blast
  obtain res u' where l: "simulate_lookup_agent unlocode company_name u = (res, u')"
    by (cases "simulate_lookup_agent unlocode company_name u")
  from lookup_agent_eq [OF g, of unlocode u] l obtain x where "res = Inr x" by simp
  with l show "\<exists>res u'. simulate_lookup_agent unlocode company_name u = (Inr res, u')"
    by blast
next
  from orchestrate_stages [of country city u company_name]
  show "\<exists>out u'. lead_agent_orchestrate country city company_name u = (Inr out, u')"
    by blast
next
  show "\<forall>w \<in> set (split company_name). w \<noteq> []"
    using split_nonempty by blast
next
  show "3 \<le> length (split company_name) \<longrightarrow>
        (\<exists>c. first_char (split company_name ! 2) = Inr [c])"
  proof
    assume w: "3 \<le> length (split company_name)"
    then have "split company_name ! 2 \<noteq> []" by (intro split_nth_nonempty) simp
    then obtain c cs where "split company_name ! 2 = c # cs"
      by (cases "split company_name ! 2") simp_all
    then have "first_char (split company_name ! 2) = Inr [c]" by (simp add: first_char_def)
    then show "\<exists>c. first_char (split company_name ! 2) = Inr [c]" ..
  qed
qed

text \<open>
  The theorem at a name of three words, whose third word has a first character, and the
  orchestrator at three empty strings.
\<close>

theorem pipeline_total_witness:
  "split ''a b  c'' = [''a'', ''b'', ''c'']
   \<and> 3 \<le> length (split ''a b  c'')
   \<and> (\<exists>c. first_char (split ''a b  c'' ! 2) = Inr [c])
   \<and> ''c'' \<noteq> []
   \<and> (\<exists>out u'. lead_agent_orchestrate [] [] [] \<lparr>infos = [], slept = 0\<rparr> = (Inr out, u'))"
proof -
  have s: "split ''a b  c'' = [''a'', ''b'', ''c'']" by code_simp
  then have n: "3 \<le> length (split ''a b  c'')" by simp
  note t = pipeline_total [of "''a b  c''" "[]" "\<lparr>infos = [], slept = 0\<rparr>" "[]" "[]"]
  from t n have f: "\<exists>c. first_char (split ''a b  c'' ! 2) = Inr [c]" by blast
  from t s have ne: "''c'' \<noteq> []" by simp
  from pipeline_total [of "[]" "[]" "\<lparr>infos = [], slept = 0\<rparr>" "[]" "[]"]
  have o: "\<exists>out u'. lead_agent_orchestrate [] [] [] \<lparr>infos = [], slept = 0\<rparr> = (Inr out, u')"
    by blast
  from s n f ne o show ?thesis by (intro conjI)
qed

subsection \<open>C10: the country is matched as it is given\<close>

text \<open>
  C10. Only the city is normalized. The country is looked up in the directory as given,
  case-sensitively and untrimmed: for every city, the countries \<open>FRANCE\<close> and \<open>france\<close>
  (and \<open>France\<close> with a space before or after it) give the sentinel \<open>UNK00\<close>, although
  \<open>France\<close> is registered and a city in lower case with spaces around it is found there.
\<close>

theorem country_case_sensitive:
  "fst (simulate_research_agent ''FRANCE'' city u) = ''UNK00''
   \<and> fst (simulate_research_agent ''france'' city u) = ''UNK00''
   \<and> fst (simulate_research_agent '' France'' city u) = ''UNK00''
   \<and> fst (simulate_research_agent ''France '' city u) = ''UNK00''
   \<and> map_of UNLOCODE_DB ''France'' =
       Some [(''MARSEILLE'', ''FRMRS''), (''MARSEILLE-EN-BEAUVAISIS'', ''FRMBE'')]
   \<and> fst (simulate_research_agent ''France'' '' marseille '' u) = ''FRMRS''"
proof -
  have d: "dict_get UNLOCODE_DB ''FRANCE'' [] = []" "dict_get UNLOCODE_DB ''france'' [] = []"
    "dict_get UNLOCODE_DB '' France'' [] = []" "dict_get UNLOCODE_DB ''France '' [] = []"
    by (simp_all add: dict_get_def UNLOCODE_DB_def)
  have f: "dict_get UNLOCODE_DB ''France'' [] =
      [(''MARSEILLE'', ''FRMRS''), (''MARSEILLE-EN-BEAUVAISIS'', ''FRMBE'')]"
    by (simp add: dict_get_def UNLOCODE_DB_def)
  have n: "strip (upper '' marseille '') = ''MARSEILLE''" by code_simp
  have m: "map_of UNLOCODE_DB ''France'' =
       Some [(''MARSEILLE'', ''FRMRS''), (''MARSEILLE-EN-BEAUVAISIS'', ''FRMBE'')]"
    by (simp add: UNLOCODE_DB_def)
  show ?thesis
    unfolding research_agent_eq d f n m by (simp add: upper_keys)
qed

text \<open>The theorem at the city \<open>MARSEILLE\<close>, which is registered for \<open>France\<close>.\<close>

theorem country_case_sensitive_witness:
  "fst (simulate_research_agent ''FRANCE'' ''MARSEILLE'' \<lparr>infos = [], slept = 0\<rparr>) = ''UNK00''
   \<and> fst (simulate_research_agent ''france'' ''MARSEILLE'' \<lparr>infos = [], slept = 0\<rparr>) = ''UNK00''"
  using country_case_sensitive [of "''MARSEILLE''" "\<lparr>infos = [], slept = 0\<rparr>"] by simp

end
